theory Spec2Isabelle
  imports Complex_Main
begin

section \<open>ieegprep.utils.misc: a shallow embedding\<close>

text \<open>
  The theory follows \<^verbatim>\<open>src/ieegprep/utils/misc.py\<close> function by function. Python's
  unbounded integers are \<^typ>\<open>int\<close>, strings are \<^typ>\<open>string\<close>, an exception is a value of
  the datatype \<open>exn\<close> returned on the left of a sum, and everything a function does to the
  machine it runs on (console, log, file system, subprocesses, clock) is written into an
  explicit state that the function takes and returns.
\<close>

subsection \<open>Python exceptions\<close>

text \<open>
  Only the exception classes that occur in the module are named; any other class is
  \<open>OtherError\<close> with its class name. \<open>SystemExit\<close> is what the builtin \<^verbatim>\<open>exit(n)\<close> raises:
  left uncaught it ends the interpreter with status \<open>n\<close>.
\<close>

datatype exn =
    MemoryError
  | ImportError
  | PermissionError
  | FileNotFoundError
  | SystemExit int
  | OtherError string

subsection \<open>Strings: \<^verbatim>\<open>str\<close>, \<^verbatim>\<open>ljust\<close>, \<^verbatim>\<open>rjust\<close>\<close>

text \<open>
  \<^verbatim>\<open>str(value)\<close> for an integer is its decimal rendering, with a leading minus sign for a
  negative number. (The module also accepts floats; their rendering is floating-point
  formatting and is not part of this embedding, which takes the values to be integers.)
\<close>

definition digit_char :: "nat \<Rightarrow> char" where
  "digit_char d = ''0123456789'' ! d"

fun str_nat :: "nat \<Rightarrow> string" where
  "str_nat n = (if n < 10 then [digit_char n] else str_nat (n div 10) @ [digit_char (n mod 10)])"

declare str_nat.simps [simp del]

definition str :: "int \<Rightarrow> string" where
  "str value = (if value < 0 then CHR ''-'' # str_nat (nat (- value)) else str_nat (nat value))"

text \<open>
  \<^verbatim>\<open>s.ljust(width, ' ')\<close> and \<^verbatim>\<open>s.rjust(width, ' ')\<close>: the string is returned unchanged when
  \<open>width\<close> is at most its length (in particular for every negative \<open>width\<close>), otherwise it is
  filled with spaces on the right, respectively on the left, up to \<open>width\<close> characters.
\<close>

definition ljust :: "string \<Rightarrow> int \<Rightarrow> string" where
  "ljust s width =
     (if width \<le> int (length s) then s
      else s @ replicate (nat (width - int (length s))) CHR '' '')"

definition rjust :: "string \<Rightarrow> int \<Rightarrow> string" where
  "rjust s width =
     (if width \<le> int (length s) then s
      else replicate (nat (width - int (length s))) CHR '' '' @ s)"

subsection \<open>\<^verbatim>\<open>number_to_padded_string\<close>\<close>

definition number_to_padded_string :: "int \<Rightarrow> int \<Rightarrow> bool \<Rightarrow> string" where
  "number_to_padded_string value width pos_space =
     (let padded_str = (if pos_space \<and> value \<ge> 0 then '' '' else '''');
          padded_str = padded_str @ str value
      in if width < 0 then rjust padded_str (width * (- 1))
         else if width > 0 then ljust padded_str width
         else padded_str)"

subsection \<open>\<^verbatim>\<open>numbers_to_padded_string\<close>\<close>

text \<open>
  The \<^verbatim>\<open>for iValue in range(1, len(padded_values))\<close> loop, as a recursion over the
  remaining padded values; \<open>padded_str\<close> is the string built so far.
\<close>

fun pad_loop :: "string \<Rightarrow> int \<Rightarrow> int \<Rightarrow> string \<Rightarrow> string list \<Rightarrow> string" where
  "pad_loop separator width sep_width padded_str [] = padded_str"
| "pad_loop separator width sep_width padded_str (padded_value # rest) =
     (let padded_str = padded_str @ separator;
          padded_str =
            (if int (length padded_str) + sep_width + int (length padded_value) > width
             then padded_str @ ljust '''' (width - int (length padded_str) - int (length padded_value))
             else padded_str @ ljust '''' sep_width);
          padded_str = padded_str @ padded_value
      in pad_loop separator width sep_width padded_str rest)"

text \<open>
  The gap width. The source divides with \<^verbatim>\<open>/\<close>, which gives a float, compares it with 1 and
  takes \<^verbatim>\<open>ceil\<close>; the quotient is modelled as a real number. (The two agree as long as the
  numerator is below \<open>2^53\<close> in absolute value or the quotient is below 1, which covers every
  width for which the resulting string could be built.)
\<close>

definition gap_width :: "int \<Rightarrow> int \<Rightarrow> nat \<Rightarrow> nat \<Rightarrow> int" where
  "gap_width width total_value_width n_values sep_len =
     (let sep_width = real_of_int (width - total_value_width - (int n_values - 1) * int sep_len)
                        / real_of_int (int n_values - 1)
      in if sep_width < 1 then 1 else \<lceil>sep_width\<rceil>)"

definition numbers_to_padded_string :: "int list \<Rightarrow> int \<Rightarrow> bool \<Rightarrow> string \<Rightarrow> string" where
  "numbers_to_padded_string values width pos_space separator =
     (if length values = 0 then ''''
      else
        let padded_values = map (\<lambda>value. number_to_padded_string value 0 pos_space) values;
            total_value_width = (\<Sum>p \<leftarrow> padded_values. int (length p));
            padded_str = hd padded_values
        in if length values = 1 then ljust (hd padded_values) width
           else
             let sep_width = gap_width width total_value_width (length values) (length separator)
             in pad_loop separator width sep_width padded_str (tl padded_values))"

text \<open>
  The quantities the statements below speak about. \<open>total_value_width\<close> is the value of the
  source's local variable of that name after its first loop, and \<open>sep_width_of\<close> the value
  of \<^verbatim>\<open>sep_width\<close> when the second loop starts. \<open>natural_length\<close> follows the specification's
  words (the natural unpadded length: the sum of the unpadded rendered value widths plus
  \<open>count - 1\<close> separators). \<open>rest_len\<close> is the room the values still to come need, each with
  its separator.
\<close>

definition total_value_width :: "int list \<Rightarrow> bool \<Rightarrow> int" where
  "total_value_width values pos_space =
     (\<Sum>p \<leftarrow> map (\<lambda>value. number_to_padded_string value 0 pos_space) values. int (length p))"

definition natural_length :: "int list \<Rightarrow> bool \<Rightarrow> string \<Rightarrow> int" where
  "natural_length values pos_space separator =
     total_value_width values pos_space + (int (length values) - 1) * int (length separator)"

definition sep_width_of :: "int list \<Rightarrow> int \<Rightarrow> bool \<Rightarrow> string \<Rightarrow> int" where
  "sep_width_of values width pos_space separator =
     gap_width width (total_value_width values pos_space) (length values) (length separator)"

definition rest_len :: "string \<Rightarrow> string list \<Rightarrow> int" where
  "rest_len separator rest = (\<Sum>p \<leftarrow> rest. int (length separator) + int (length p))"

subsection \<open>\<^verbatim>\<open>allocate_array\<close>\<close>

text \<open>
  An array is its shape and its elements in row-major order. The element type is any type
  \<open>'a\<close>: the fill value is taken as already converted to the array's \<^verbatim>\<open>dtype\<close>, of which
  only the item size in bytes matters here. What the machine contributes to one call is
  collected in \<open>alloc_host\<close>: whether \<^verbatim>\<open>np.empty\<close> raises, what the uninitialised cells hold,
  and the outcome of \<^verbatim>\<open>from psutil import virtual_memory\<close> followed by \<^verbatim>\<open>virtual_memory()\<close>
  (either an exception, or the memory statistics).
\<close>

record dtype =
  itemsize :: nat

record 'a ndarray =
  shape :: "nat list"
  elements :: "'a list"

record svmem =
  available :: nat
  used :: nat

record 'a alloc_host =
  np_empty_error :: "exn option"
  uninitialised :: "nat \<Rightarrow> 'a"
  virtual_memory :: "exn + svmem"

definition np_empty :: "'a alloc_host \<Rightarrow> nat list \<Rightarrow> dtype \<Rightarrow> exn + 'a ndarray" where
  "np_empty host dimensions dt =
     (case np_empty_error host of
        Some e \<Rightarrow> Inl e
      | None \<Rightarrow> Inr \<lparr>shape = dimensions,
                     elements = map (uninitialised host) [0 ..< prod_list dimensions]\<rparr>)"

definition nbytes :: "'a ndarray \<Rightarrow> dtype \<Rightarrow> nat" where
  "nbytes arr dt = prod_list (shape arr) * itemsize dt"

definition fill :: "'a ndarray \<Rightarrow> 'a \<Rightarrow> 'a ndarray" where
  "fill arr fill_value = arr\<lparr>elements := map (\<lambda>_. fill_value) (elements arr)\<rparr>"

definition newline :: string where
  "newline = [CHR 0x0A]"

definition docker_hint :: string where
  "docker_hint = ''(for docker users: extend the memory resources available to the docker service)''"

text \<open>
  The \<^verbatim>\<open>except MemoryError\<close> clause: \<open>mem\<close> and \<open>data_bytes_needed\<close> are the local variables
  as they are when the exception \<open>e\<close> reaches the clause. An exception of another class is
  not caught: it leaves the function as it is and nothing is logged. The megabyte figure is
  \<^verbatim>\<open>int((mem.used + data_bytes_needed) / (1024.0 ** 2))\<close>, a float division truncated, which is
  the integer quotient for the non-negative byte counts it is applied to.
\<close>

definition reduced_diagnostic :: string where
  "reduced_diagnostic = ''Not enough memory available to create array.'' @ newline @ docker_hint"

definition quantified_diagnostic :: "svmem \<Rightarrow> nat \<Rightarrow> string" where
  "quantified_diagnostic mem data_bytes_needed =
     ''Not enough memory available to create array.'' @ newline @ ''At least ''
       @ str ((int (used mem) + int data_bytes_needed) div (1024 ^ 2))
       @ '' MB total is needed, most likely more.'' @ newline @ docker_hint"

definition except_MemoryError :: "svmem option \<Rightarrow> nat \<Rightarrow> exn \<Rightarrow> exn \<times> string list" where
  "except_MemoryError mem data_bytes_needed e =
     (if e = MemoryError then
        (case mem of
           None \<Rightarrow> (MemoryError, [reduced_diagnostic])
         | Some m \<Rightarrow> (MemoryError, [quantified_diagnostic m data_bytes_needed]))
      else (e, []))"

text \<open>
  The result is what the call returns or raises, together with the messages it sent to
  \<^verbatim>\<open>logging.error\<close>.
\<close>

definition allocate_array ::
  "'a alloc_host \<Rightarrow> nat list \<Rightarrow> 'a \<Rightarrow> dtype \<Rightarrow> (exn + 'a ndarray) \<times> string list" where
  "allocate_array host dimensions fill_value dt =
     (case np_empty host dimensions dt of
        Inl e \<Rightarrow> (let (e', logged) = except_MemoryError None 0 e in (Inl e', logged))
      | Inr data \<Rightarrow>
          let data_bytes_needed = nbytes data dt in
          (case virtual_memory host of
             Inl e \<Rightarrow>
               (let (e', logged) = except_MemoryError None data_bytes_needed e
                in (Inl e', logged))
           | Inr mem \<Rightarrow>
               if available mem \<le> data_bytes_needed then
                 (let (e', logged) = except_MemoryError (Some mem) data_bytes_needed MemoryError
                  in (Inl e', logged))
               else (Inr (fill data fill_value), [])))"

subsection \<open>\<^verbatim>\<open>time_func\<close>\<close>

text \<open>
  The timed function and the pre-function act on a state \<open>'s\<close> and may raise; the arguments
  \<^verbatim>\<open>*args, **kwargs\<close> are part of the function value. \<^verbatim>\<open>time.time()\<close> reads the clock
  from the state, which it may change. Times are floats in the source and real numbers here;
  the source's array \<^verbatim>\<open>times\<close> is \<open>time_samples\<close>.
\<close>

type_synonym 's action = "'s \<Rightarrow> exn + 's"

fun time_loop ::
  "'s action \<Rightarrow> 's action option \<Rightarrow> ('s \<Rightarrow> real \<times> 's) \<Rightarrow> nat list \<Rightarrow> real list \<Rightarrow> 's
     \<Rightarrow> exn + (real list \<times> 's)" where
  "time_loop func pre_fun time_time [] time_samples s = Inr (time_samples, s)"
| "time_loop func pre_fun time_time (iLoop # todo) time_samples s =
     (case (case pre_fun of None \<Rightarrow> Inr s | Some pre \<Rightarrow> pre s) of
        Inl e \<Rightarrow> Inl e
      | Inr s1 \<Rightarrow>
          let (time1, s2) = time_time s1 in
          (case func s2 of
             Inl e \<Rightarrow> Inl e
           | Inr s3 \<Rightarrow>
               let (time2, s4) = time_time s3 in
               time_loop func pre_fun time_time todo
                 (time_samples[iLoop := (time2 - time1) * 1000]) s4))"

definition np_mean :: "real list \<Rightarrow> real" where
  "np_mean xs = sum_list xs / real (length xs)"

definition np_std :: "real list \<Rightarrow> real" where
  "np_std xs = sqrt (np_mean (map (\<lambda>x. (abs (x - np_mean xs))\<^sup>2) xs))"

definition time_func ::
  "'s action \<Rightarrow> 's action option \<Rightarrow> int \<Rightarrow> ('s \<Rightarrow> real \<times> 's) \<Rightarrow> 's
     \<Rightarrow> exn + ((real \<times> real \<times> (real \<times> real) \<times> real list) \<times> 's)" where
  "time_func func pre_fun loop time_time s =
     (let loop = (if loop < 1 then 1 else loop);
          time_samples = replicate (nat loop) 0
      in case time_loop func pre_fun time_time [0 ..< nat loop] time_samples s of
           Inl e \<Rightarrow> Inl e
         | Inr (time_samples, s') \<Rightarrow>
             Inr ((np_mean time_samples, np_std time_samples, (Min (set time_samples), Max (set time_samples)), time_samples), s'))"

subsection \<open>\<^verbatim>\<open>clear_virtual_cache\<close>\<close>

text \<open>
  The machine, as far as the function touches it. Files are named by the path the source
  uses (relative paths are relative to the current directory, which the function never
  changes). \<open>unwritable\<close> holds the paths that \<^verbatim>\<open>open(path, 'w')\<close> is refused on.
  \<open>on_search_path\<close> tells which executables the shell finds through \<^verbatim>\<open>$PATH\<close>; the source
  never asks. A command run with \<^verbatim>\<open>os.system\<close> is recorded in \<open>commands\<close>, and its exit
  status is the machine's answer \<open>exit_status\<close> to the number of commands run before it and
  the command line; what else a command does to the machine is outside this model.
\<close>

datatype console_line = Printed string | Error_printed string

record host =
  platform :: string
  files :: "string \<rightharpoonup> string"
  unwritable :: "string set"
  on_search_path :: "string \<Rightarrow> bool"
  environ :: "string \<rightharpoonup> string"
  console :: "console_line list"
  commands :: "string list"
  exit_status :: "nat \<Rightarrow> string \<Rightarrow> int"
  syncs :: nat

datatype outcome = Returned | Raised exn

definition print :: "string \<Rightarrow> host \<Rightarrow> host" where
  "print text h = h\<lparr>console := console h @ [Printed text]\<rparr>"

text \<open>
  Modelled from the spec: \<^verbatim>\<open>ConsoleColors.print_error\<close> of \<^verbatim>\<open>ieegprep.utils.console\<close>, which
  is not among the sources. It reports the message to the user on the console and returns.
\<close>

definition print_error :: "string \<Rightarrow> host \<Rightarrow> host" where
  "print_error text h = h\<lparr>console := console h @ [Error_printed text]\<rparr>"

definition os_path_exists :: "string \<Rightarrow> host \<Rightarrow> bool" where
  "os_path_exists path h = (files h path \<noteq> None)"

definition os_system :: "string \<Rightarrow> host \<Rightarrow> int \<times> host" where
  "os_system command h =
     (exit_status h (length (commands h)) command, h\<lparr>commands := commands h @ [command]\<rparr>)"

text \<open>\<^verbatim>\<open>with open(path, 'w') as f:\<close> followed by the writes, whose texts are \<open>chunks\<close>.\<close>

definition open_w_write :: "string \<Rightarrow> string list \<Rightarrow> host \<Rightarrow> exn + host" where
  "open_w_write path chunks h =
     (if path \<in> unwritable h then Inl PermissionError
      else Inr (h\<lparr>files := (files h)(path \<mapsto> concat chunks)\<rparr>))"

definition os_remove :: "string \<Rightarrow> host \<Rightarrow> exn + host" where
  "os_remove path h =
     (if files h path = None then Inl FileNotFoundError
      else Inr (h\<lparr>files := (files h)(path := None)\<rparr>))"

definition os_sync :: "host \<Rightarrow> host" where
  "os_sync h = h\<lparr>syncs := syncs h + 1\<rparr>"

definition mac_prompt_script :: "string list" where
  \<open>mac_prompt_script =
     [''#!/bin/bash'' @ newline,
      ''pw="$(osascript -e 'Tell application "System Events" to display dialog "Password to purge virtual memory:" default answer "" with hidden answer' -e 'text returned of result' 2>/dev/null)" && echo "$pw"'' @ newline]\<close>

definition rammap_missing :: string where
  "rammap_missing =
     ''Error: could not find RAMMAP64.exe to clear virtual memory.'' @ newline @
     ''Download RAMMAP tools from Microsoft Sysinternals, and make sure the RAMMAP64.exe file is into the script directory (or can be found through the environment variable $PATH)''"

text \<open>
  The \<^verbatim>\<open>while retry_purge < 5\<close> loop; it returns the final value of \<open>retry_purge\<close>.
\<close>

function purge_loop :: "int \<Rightarrow> host \<Rightarrow> int \<times> host" where
  "purge_loop retry_purge h =
     (if retry_purge < 5 then
        (let (status, h1) = os_system ''sudo -A /usr/sbin/purge'' h
         in if status = 0 then (retry_purge, h1)
            else purge_loop (retry_purge + 1) (print ''Retry purge'' h1))
      else (retry_purge, h))"
  by pat_completeness auto
termination
  by (relation "measure (\<lambda>(retry_purge, h). nat (5 - retry_purge))") auto

declare purge_loop.simps [simp del]

definition clear_virtual_cache :: "host \<Rightarrow> outcome \<times> host" where
  "clear_virtual_cache h =
     (if platform h = ''win32'' then
        (if \<not> os_path_exists ''RAMMap64.exe'' h then
           (Raised (SystemExit 1), print_error rammap_missing h)
         else
           let (status, h1) = os_system ''RAMMap64.exe -Et'' h
           in (Returned, print ''Cleared virtual memory'' h1))
      else if platform h \<in> {''linux'', ''linux2''} then
        (let h1 = os_sync h
         in case open_w_write ''/proc/sys/vm/drop_caches'' [''1'' @ newline] h1 of
              Inl e \<Rightarrow> (Raised e, h1)
            | Inr h2 \<Rightarrow> (Returned, print ''Cleared virtual memory'' h2))
      else if platform h = ''darwin'' then
        (case open_w_write ''./mac_prompt_pw.sh'' mac_prompt_script h of
           Inl e \<Rightarrow> (Raised e, h)
         | Inr h1 \<Rightarrow>
             let h2 = h1\<lparr>environ := (environ h1)(''SUDO_ASKPASS'' \<mapsto> ''./mac_prompt_pw.sh'')\<rparr>;
                 (status, h3) = os_system ''chmod +x ./mac_prompt_pw.sh'' h2;
                 (retry_purge, h4) = purge_loop 0 h3;
                 h5 = (if retry_purge = 5
                       then print_error ''Could not purge virtual memory after 5 tries, skipping'' h4
                       else h4)
             in case os_remove ''./mac_prompt_pw.sh'' h5 of
                  Inl e \<Rightarrow> (Raised e, h5)
                | Inr h6 \<Rightarrow> (Returned, print ''Cleared virtual memory'' h6))
      else (Returned, h))"

text \<open>
  A machine on which nothing has happened yet, for the concrete runs below: no files, no
  executable on the search path, and every command answering with the exit status given.
\<close>

definition bare_host :: "string \<Rightarrow> int \<Rightarrow> host" where
  "bare_host p status =
     \<lparr>platform = p, files = Map.empty, unwritable = {}, on_search_path = (\<lambda>exe. False),
      environ = Map.empty, console = [], commands = [], exit_status = (\<lambda>n command. status),
      syncs = 0\<rparr>"

text \<open>An uncaught \<open>SystemExit\<close> ends the interpreter: the failure is the process's.\<close>

fun ends_process :: "outcome \<Rightarrow> bool" where
  "ends_process (Raised (SystemExit status)) = True"
| "ends_process _ = False"

text \<open>The exit status the \<open>j\<close>-th purge attempt of a call on \<open>h\<close> gets (counting from 0).\<close>

definition purge_status :: "host \<Rightarrow> nat \<Rightarrow> int" where
  "purge_status h j = exit_status h (length (commands h) + 1 + j) ''sudo -A /usr/sbin/purge''"

section \<open>Properties\<close>

subsection \<open>Justification and the padding loop\<close>

lemma ljust_empty: "ljust '''' n = replicate (nat n) CHR '' ''"
  by (simp add: ljust_def)


lemma length_rjust: "int (length (rjust s w)) = max w (int (length s))"
  by (simp add: rjust_def)

lemma pad_loop_shape:
  "\<exists>gaps. length gaps = length rest \<and>
     pad_loop sep w g acc rest =
       acc @ concat (map (\<lambda>(k, p). sep @ replicate k CHR '' '' @ p) (zip gaps rest))"
proof (induction rest arbitrary: acc)
  case Nil
  then show ?case by simp
next
  case (Cons p rest)
  define k where "k = (if int (length (acc @ sep)) + g + int (length p) > w
                       then nat (w - int (length (acc @ sep)) - int (length p)) else nat g)"
  have step: "pad_loop sep w g acc (p # rest) = pad_loop sep w g (acc @ sep @ replicate k CHR '' '' @ p) rest"
    by (simp add: k_def Let_def ljust_empty)
  from Cons.IH [of "acc @ sep @ replicate k CHR '' '' @ p"]
  obtain gaps where g: "length gaps = length rest"
    "pad_loop sep w g (acc @ sep @ replicate k CHR '' '' @ p) rest =
       (acc @ sep @ replicate k CHR '' '' @ p) @ concat (map (\<lambda>(k, p). sep @ replicate k CHR '' '' @ p) (zip gaps rest))"
    by blast
  show ?case
    unfolding step g(2)
    by (rule exI [of _ "k # gaps"]) (simp add: g(1))
qed

lemma rest_len_simps [simp]:
  "rest_len sep [] = 0"
  "rest_len sep (p # rest) = int (length sep) + int (length p) + rest_len sep rest"
  by (simp_all add: rest_len_def)









lemma sum_list_render:
  "(\<Sum>p \<leftarrow> map f vs. int (length p)) = (\<Sum>v \<leftarrow> vs. int (length (f v)))"
  by (simp add: comp_def)


lemma numbers_to_padded_string_many:
  assumes "2 \<le> length (v # vs)"
  shows "numbers_to_padded_string (v # vs) w ps sep =
           pad_loop sep w (sep_width_of (v # vs) w ps sep) (number_to_padded_string v 0 ps)
             (map (\<lambda>value. number_to_padded_string value 0 ps) vs)"
  using assms
  by (cases vs)
    (simp_all add: numbers_to_padded_string_def sep_width_of_def total_value_width_def Let_def)



lemma str_5: "str 5 = ''5''"
  by code_simp

lemma str_m3: "str (- 3) = ''-3''"
  by code_simp

subsection \<open>Formatting one value\<close>

text \<open>
  Claim C9. \<^verbatim>\<open>number_to_padded_string\<close> renders the value as text, with one space in front
  exactly when \<open>pos_space\<close> is set and the value is at least 0. A negative width pads with
  spaces on the left up to \<open>abs width\<close> characters, a positive width pads on the right up to
  \<open>width\<close> characters, and width 0 adds nothing; a text that is already longer is left as it
  is. In particular the value 5 with width 0 gives \<open>'' 5''\<close> and the value -3 gives \<open>''-3''\<close>.
\<close>

theorem number_to_padded_string_layout:
  "(width < 0 \<longrightarrow>
      number_to_padded_string value width pos_space =
        replicate (nat (- width) - length ((if pos_space \<and> 0 \<le> value then '' '' else '''') @ str value)) CHR '' ''
          @ (if pos_space \<and> 0 \<le> value then '' '' else '''') @ str value) \<and>
   (0 < width \<longrightarrow>
      number_to_padded_string value width pos_space =
        (if pos_space \<and> 0 \<le> value then '' '' else '''') @ str value
          @ replicate (nat width - length ((if pos_space \<and> 0 \<le> value then '' '' else '''') @ str value)) CHR '' '') \<and>
   (width = 0 \<longrightarrow>
      number_to_padded_string value width pos_space =
        (if pos_space \<and> 0 \<le> value then '' '' else '''') @ str value) \<and>
   number_to_padded_string 5 0 True = '' 5'' \<and>
   number_to_padded_string (- 3) 0 True = ''-3''"
proof -
  have a: "rjust s w = replicate (nat w - length s) CHR '' '' @ s" for s w
    by (simp add: rjust_def nat_diff_distrib')
  have b: "ljust s w = s @ replicate (nat w - length s) CHR '' ''" for s w
    by (simp add: ljust_def nat_diff_distrib')
  have c: "number_to_padded_string 5 0 True = '' 5''"
    by (simp add: number_to_padded_string_def str_5)
  have d: "number_to_padded_string (- 3) 0 True = ''-3''"
    by (simp add: number_to_padded_string_def str_m3)
  show ?thesis
    unfolding c d by (simp add: number_to_padded_string_def Let_def a b)
qed

theorem number_to_padded_string_layout_witness:
  "(- 6 :: int) < 0 \<and> number_to_padded_string (- 3) (- 6) True = ''    -3'' \<and>
   (0 :: int) < 6 \<and> number_to_padded_string 120 6 True = '' 120  '' \<and>
   number_to_padded_string 7 0 False = ''7''"
proof -
  have s1: "str (- 3) = ''-3''" and s2: "str 120 = ''120''" and s3: "str 7 = ''7''"
    by code_simp+
  show ?thesis
    using number_to_padded_string_layout [of "- 6" "- 3" True]
          number_to_padded_string_layout [of 6 120 True]
          number_to_padded_string_layout [of 0 7 False]
    by (simp add: s1 s2 s3 eval_nat_numeral)
qed

subsection \<open>Formatting several values\<close>

text \<open>
  Claim C10. For two or more values and every width, the result is the first value's
  rendering followed, for each further value in order, by the whole separator, a run of
  spaces (possibly none) and the whole rendering of that value. Only the runs of spaces
  depend on the width.
\<close>

theorem numbers_to_padded_string_shape:
  "2 \<le> length values \<Longrightarrow>
     \<exists>gaps. length gaps = length values - 1 \<and>
       numbers_to_padded_string values width pos_space separator =
         number_to_padded_string (hd values) 0 pos_space @
         concat (map (\<lambda>(gap, value).
                        separator @ replicate gap CHR '' '' @ number_to_padded_string value 0 pos_space)
                  (zip gaps (tl values)))"
proof -
  assume two: "2 \<le> length values"
  then obtain v vs where vs: "values = v # vs" by (cases "values") auto
  let ?render = "\<lambda>value. number_to_padded_string value 0 pos_space"
  let ?g = "sep_width_of values width pos_space separator"
  from pad_loop_shape [of "map ?render vs" separator width ?g "?render v"]
  obtain gaps where g: "length gaps = length (map ?render vs)"
    "pad_loop separator width ?g (?render v) (map ?render vs) =
       ?render v @ concat (map (\<lambda>(k, p). separator @ replicate k CHR '' '' @ p)
                            (zip gaps (map ?render vs)))"
    by blast
  have z: "map (\<lambda>(k, p). separator @ replicate k CHR '' '' @ p) (zip gaps (map ?render vs))
         = map (\<lambda>(gap, value). separator @ replicate gap CHR '' '' @ ?render value) (zip gaps vs)"
    by (simp add: zip_map2 case_prod_unfold comp_def)
  have out: "numbers_to_padded_string values width pos_space separator =
               pad_loop separator width ?g (?render v) (map ?render vs)"
    using numbers_to_padded_string_many [of v vs] two by (simp add: vs)
  show ?thesis
    unfolding out g(2) z
    by (rule exI [of _ gaps]) (simp add: g(1) vs)
qed

theorem numbers_to_padded_string_shape_witness:
  "2 \<le> length [1, 2, 3 :: int] \<and>
   (\<exists>gaps. length gaps = length [1, 2, 3 :: int] - 1 \<and>
       numbers_to_padded_string [1, 2, 3] 4 True '', '' =
         number_to_padded_string (hd [1, 2, 3]) 0 True @
         concat (map (\<lambda>(gap, value).
                        '', '' @ replicate gap CHR '' '' @ number_to_padded_string value 0 True)
                  (zip gaps (tl [1, 2, 3]))))"
proof -
  have h: "2 \<le> length [1, 2, 3 :: int]" by simp
  from numbers_to_padded_string_shape [OF h, of 4 True "'', ''"] h
  show ?thesis by blast
qed




text \<open>
  Claim C4 does not hold of the code. With width 10 the values 1, 2, 3 have natural length
  10, so a string of 10 characters is called for, and the result has 11: the first gap
  takes a space before it is known that the last value no longer fits.
\<close>

theorem numbers_to_padded_string_overflow:
  "natural_length [1, 2, 3] True '', '' = 10 \<and>
   numbers_to_padded_string [1, 2, 3] 10 True '', '' = '' 1,   2,  3'' \<and>
   \<not> int (length (numbers_to_padded_string [1, 2, 3] 10 True '', ''))
       \<le> max 10 (natural_length [1, 2, 3] True '', '')"
  by code_simp


subsection \<open>Guarded allocation\<close>

text \<open>
  Whatever the machine answers, an array that is returned has the requested shape and holds
  the fill value in every cell.
\<close>

lemma allocate_array_all_or_nothing:
  "fst (allocate_array host dimensions fill_value dt) = Inr arr \<Longrightarrow>
     shape arr = dimensions \<and> elements arr = replicate (prod_list dimensions) fill_value"
  by (auto simp add: allocate_array_def np_empty_def fill_def Let_def map_replicate_const
        split: option.splits sum.splits if_splits prod.splits)



text \<open>
  Claim C6, as stated, fails: when \<^verbatim>\<open>psutil\<close> cannot be imported the call ends with that
  \<open>ImportError\<close>, not with \<open>MemoryError\<close>, and nothing is logged.
\<close>

theorem allocate_array_import_error_counterexample:
  "allocate_array
     \<lparr>np_empty_error = None, uninitialised = (\<lambda>i. 7 :: int),
      virtual_memory = Inl ImportError\<rparr> [2, 3] 0 \<lparr>itemsize = 8\<rparr>
     = (Inl ImportError, [])"
  by (simp add: allocate_array_def np_empty_def except_MemoryError_def Let_def)

text \<open>
  Claim C6, amended. When the memory query raises instead of answering, \<^verbatim>\<open>allocate_array\<close>
  never returns an array. If the exception is a \<open>MemoryError\<close>, the call logs the reduced
  diagnostic, the one without the megabyte figure, and raises \<open>MemoryError\<close>; an exception of
  any other class leaves the call unchanged and nothing is logged. The same reduced
  diagnostic and \<open>MemoryError\<close> result when creating the array object already raised
  \<open>MemoryError\<close>, before the query.
\<close>

theorem allocate_array_query_unavailable:
  "virtual_memory host = Inl e \<Longrightarrow>
     (\<forall>arr. fst (allocate_array host dimensions fill_value dt) \<noteq> Inr arr) \<and>
     (np_empty_error host = None \<longrightarrow>
        allocate_array host dimensions fill_value dt =
          (if e = MemoryError then (Inl MemoryError, [reduced_diagnostic]) else (Inl e, []))) \<and>
     (np_empty_error host = Some MemoryError \<longrightarrow>
        allocate_array host dimensions fill_value dt = (Inl MemoryError, [reduced_diagnostic]))"
  by (auto simp add: allocate_array_def np_empty_def except_MemoryError_def Let_def
        split: option.splits sum.splits prod.splits)

theorem allocate_array_query_unavailable_witness:
  "allocate_array
     \<lparr>np_empty_error = None, uninitialised = (\<lambda>i. 7 :: int),
      virtual_memory = Inl MemoryError\<rparr> [2, 3] 0 \<lparr>itemsize = 8\<rparr>
     = (Inl MemoryError, [reduced_diagnostic]) \<and>
   allocate_array
     \<lparr>np_empty_error = Some MemoryError, uninitialised = (\<lambda>i. 7 :: int),
      virtual_memory = Inl (OtherError ''OSError'')\<rparr> [2, 3] 0 \<lparr>itemsize = 8\<rparr>
     = (Inl MemoryError, [reduced_diagnostic])"
  using allocate_array_query_unavailable
          [of "\<lparr>np_empty_error = None, uninitialised = (\<lambda>i. 7 :: int),
                virtual_memory = Inl MemoryError\<rparr>" MemoryError "[2, 3]" 0 "\<lparr>itemsize = 8\<rparr>"]
        allocate_array_query_unavailable
          [of "\<lparr>np_empty_error = Some MemoryError, uninitialised = (\<lambda>i. 7 :: int),
                virtual_memory = Inl (OtherError ''OSError'')\<rparr>" "OtherError ''OSError''" "[2, 3]" 0
              "\<lparr>itemsize = 8\<rparr>"]
  by simp

subsection \<open>Timing\<close>

lemma time_loop_length:
  "time_loop func pre_fun time_time todo time_samples s = Inr (out, s') \<Longrightarrow>
     length out = length time_samples"
proof (induction todo arbitrary: time_samples s)
  case Nil
  then show ?case by simp
next
  case (Cons i todo)
  then show ?case
    by (fastforce split: sum.splits option.splits prod.splits)
qed

lemma time_loop_returns:
  assumes "\<forall>s. \<exists>s'. func s = Inr s'"
      and "\<forall>pre. pre_fun = Some pre \<longrightarrow> (\<forall>s. \<exists>s'. pre s = Inr s')"
  shows "\<exists>out s'. time_loop func pre_fun time_time todo time_samples s = Inr (out, s')"
proof (induction todo arbitrary: time_samples s)
  case Nil
  then show ?case by simp
next
  case (Cons i todo)
  obtain s1 where s1: "(case pre_fun of None \<Rightarrow> Inr s | Some pre \<Rightarrow> pre s) = Inr s1"
    using assms(2) by (cases pre_fun) auto
  obtain time1 s2 where c1: "time_time s1 = (time1, s2)" by (cases "time_time s1")
  obtain s3 where s3: "func s2 = Inr s3" using assms(1) by blast
  obtain time2 s4 where c2: "time_time s3 = (time2, s4)" by (cases "time_time s3")
  show ?case
    using Cons.IH [of "time_samples[i := (time2 - time1) * 1000]" s4]
    by (simp add: s1 c1 s3 c2)
qed

text \<open>
  Claim C8. For a timed function and a pre-function that return normally in every state,
  and for every integer \<open>loop\<close>, \<^verbatim>\<open>time_func\<close> returns, and the sample sequence it returns
  has \<open>max 1 loop\<close> entries: 5 entries for \<open>loop = 5\<close> and one entry for \<open>loop = 0\<close>.
\<close>

theorem time_func_samples:
  "\<forall>s. \<exists>s'. func s = Inr s' \<Longrightarrow>
   \<forall>pre. pre_fun = Some pre \<longrightarrow> (\<forall>s. \<exists>s'. pre s = Inr s') \<Longrightarrow>
     \<exists>mean std rng time_samples s'.
        time_func func pre_fun loop time_time s = Inr ((mean, std, rng, time_samples), s') \<and>
        int (length time_samples) = max 1 loop \<and>
        (loop = 5 \<longrightarrow> length time_samples = 5) \<and>
        (loop = 0 \<longrightarrow> length time_samples = 1)"
proof -
  assume a: "\<forall>s. \<exists>s'. func s = Inr s'"
     and b: "\<forall>pre. pre_fun = Some pre \<longrightarrow> (\<forall>s. \<exists>s'. pre s = Inr s')"
  let ?loop = "if loop < 1 then 1 else loop"
  from time_loop_returns [OF a b, of time_time "[0 ..< nat ?loop]" "replicate (nat ?loop) 0" s]
  obtain out s' where r:
    "time_loop func pre_fun time_time [0 ..< nat ?loop] (replicate (nat ?loop) 0) s = Inr (out, s')"
    by blast
  from time_loop_length [OF r] have len: "length out = nat ?loop" by simp
  have "time_func func pre_fun loop time_time s =
          Inr ((np_mean out, np_std out, (Min (set out), Max (set out)), out), s')"
    using r by (simp add: time_func_def Let_def)
  moreover have "int (length out) = max 1 loop" using len by auto
  ultimately show ?thesis by auto
qed

theorem time_func_samples_witness:
  "(\<exists>mean std rng time_samples s'.
      time_func (\<lambda>s :: nat. Inr (Suc s)) None 5 (\<lambda>s. (real s, s)) 0
        = Inr ((mean, std, rng, time_samples), s') \<and> length time_samples = 5) \<and>
   (\<exists>mean std rng time_samples s'.
      time_func (\<lambda>s :: nat. Inr (Suc s)) None 0 (\<lambda>s. (real s, s)) 0
        = Inr ((mean, std, rng, time_samples), s') \<and> length time_samples = 1)"
proof -
  have a: "\<forall>s :: nat. \<exists>s'. (Inr (Suc s) :: exn + nat) = Inr s'" by simp
  have b: "\<forall>pre. (None :: nat action option) = Some pre \<longrightarrow> (\<forall>s. \<exists>s'. pre s = Inr s')" by simp
  from time_func_samples [of "\<lambda>s :: nat. Inr (Suc s)" None 5 "\<lambda>s. (real s, s)" 0, OF a b]
       time_func_samples [of "\<lambda>s :: nat. Inr (Suc s)" None 0 "\<lambda>s. (real s, s)" 0, OF a b]
  show ?thesis by simp
qed

subsection \<open>Clearing the cache\<close>

text \<open>
  Claim C2, as stated, fails: on a platform that is none of \<open>win32\<close>, \<open>linux\<close>, \<open>linux2\<close>,
  \<open>darwin\<close> the call returns normally; no error is raised.
\<close>

theorem clear_virtual_cache_other_platform_counterexample:
  "platform (bare_host ''cygwin'' 0) \<notin> {''win32'', ''linux'', ''linux2'', ''darwin''} \<and>
   clear_virtual_cache (bare_host ''cygwin'' 0) = (Returned, bare_host ''cygwin'' 0)"
  by (simp add: clear_virtual_cache_def bare_host_def)

text \<open>
  Claim C2, amended. On a platform that matches none of the Windows, Linux and macOS
  branches, \<^verbatim>\<open>clear_virtual_cache\<close> returns normally, without an error, and leaves the machine
  as it was: no file is touched and no command is run.
\<close>

theorem clear_virtual_cache_other_platform:
  "platform h \<notin> {''win32'', ''linux'', ''linux2'', ''darwin''} \<Longrightarrow>
     clear_virtual_cache h = (Returned, h)"
  by (simp add: clear_virtual_cache_def)

theorem clear_virtual_cache_other_platform_witness:
  "platform (bare_host ''freebsd13'' 0) \<notin> {''win32'', ''linux'', ''linux2'', ''darwin''} \<and>
   clear_virtual_cache (bare_host ''freebsd13'' 0) = (Returned, bare_host ''freebsd13'' 0)"
proof -
  have p: "platform (bare_host ''freebsd13'' 0) \<notin> {''win32'', ''linux'', ''linux2'', ''darwin''}"
    by (simp add: bare_host_def)
  from clear_virtual_cache_other_platform [OF p] p show ?thesis by simp
qed

text \<open>
  Claim C5, as stated, fails: on Windows without the executable the call ends in
  \<open>SystemExit 1\<close>, raised by \<^verbatim>\<open>exit(1)\<close>, which ends the process and not only the operation.
\<close>

theorem clear_virtual_cache_win32_counterexample:
  "platform (bare_host ''win32'' 0) = ''win32'' \<and>
   fst (clear_virtual_cache (bare_host ''win32'' 0)) = Raised (SystemExit 1) \<and>
   ends_process (fst (clear_virtual_cache (bare_host ''win32'' 0)))"
  by (simp add: clear_virtual_cache_def bare_host_def os_path_exists_def)

text \<open>
  The existence test looks at the current directory only: an executable that the search path
  would find is reported missing all the same.
\<close>

lemma clear_virtual_cache_win32_search_path:
  "\<not> os_path_exists ''RAMMap64.exe'' ((bare_host ''win32'' 0)\<lparr>on_search_path := (\<lambda>exe. exe = ''RAMMap64.exe'')\<rparr>) \<and>
   on_search_path ((bare_host ''win32'' 0)\<lparr>on_search_path := (\<lambda>exe. exe = ''RAMMap64.exe'')\<rparr>) ''RAMMap64.exe'' \<and>
   fst (clear_virtual_cache ((bare_host ''win32'' 0)\<lparr>on_search_path := (\<lambda>exe. exe = ''RAMMap64.exe'')\<rparr>))
     = Raised (SystemExit 1)"
  by (simp add: clear_virtual_cache_def bare_host_def os_path_exists_def)

text \<open>
  Claim C5, amended. On the Windows branch, when the executable exists in the current
  directory, \<^verbatim>\<open>clear_virtual_cache\<close> runs it with the flag \<^verbatim>\<open>-Et\<close> and returns. When the
  executable is neither in the current directory nor on the search path, the call reports
  the error to the user, runs no command, and raises \<open>SystemExit\<close> with status 1, which ends
  the process unless a caller catches it.
\<close>

theorem clear_virtual_cache_win32:
  "platform h = ''win32'' \<Longrightarrow>
     (os_path_exists ''RAMMap64.exe'' h \<longrightarrow>
        clear_virtual_cache h =
          (Returned,
           print ''Cleared virtual memory'' (h\<lparr>commands := commands h @ [''RAMMap64.exe -Et'']\<rparr>))) \<and>
     (\<not> os_path_exists ''RAMMap64.exe'' h \<and> \<not> on_search_path h ''RAMMap64.exe'' \<longrightarrow>
        clear_virtual_cache h = (Raised (SystemExit 1), print_error rammap_missing h) \<and>
        ends_process (fst (clear_virtual_cache h)) \<and>
        commands (snd (clear_virtual_cache h)) = commands h)"
  by (simp add: clear_virtual_cache_def os_system_def print_error_def)

theorem clear_virtual_cache_win32_witness:
  "clear_virtual_cache ((bare_host ''win32'' 0)\<lparr>files := [''RAMMap64.exe'' \<mapsto> ''MZ'']\<rparr>) =
     (Returned,
      print ''Cleared virtual memory''
        ((bare_host ''win32'' 0)\<lparr>files := [''RAMMap64.exe'' \<mapsto> ''MZ''],
                                 commands := [''RAMMap64.exe -Et'']\<rparr>)) \<and>
   clear_virtual_cache (bare_host ''win32'' 1) =
     (Raised (SystemExit 1), print_error rammap_missing (bare_host ''win32'' 1))"
proof -
  have a: "platform ((bare_host ''win32'' 0)\<lparr>files := [''RAMMap64.exe'' \<mapsto> ''MZ'']\<rparr>) = ''win32''"
    and b: "os_path_exists ''RAMMap64.exe'' ((bare_host ''win32'' 0)\<lparr>files := [''RAMMap64.exe'' \<mapsto> ''MZ'']\<rparr>)"
    and c: "platform (bare_host ''win32'' 1) = ''win32''"
    and d: "\<not> os_path_exists ''RAMMap64.exe'' (bare_host ''win32'' 1)"
    and e: "\<not> on_search_path (bare_host ''win32'' 1) ''RAMMap64.exe''"
    by (simp_all add: bare_host_def os_path_exists_def)
  from clear_virtual_cache_win32 [OF a] b clear_virtual_cache_win32 [OF c] d e
  show ?thesis by (simp add: bare_host_def)
qed

text \<open>
  The purge loop started with \<open>retry_purge = r\<close>: it changes no file, runs the purge
  command once per failed attempt and once more if it stops before the fifth failure, and
  stops early only at an exit status 0.
\<close>

lemma purge_loop_spec:
  "purge_loop r h = (r', h') \<Longrightarrow> r \<le> 5 \<Longrightarrow>
     r \<le> r' \<and> r' \<le> 5 \<and> files h' = files h \<and> exit_status h' = exit_status h \<and>
     commands h' =
       commands h @ replicate (nat (r' - r) + (if r' < 5 then 1 else 0)) ''sudo -A /usr/sbin/purge'' \<and>
     (\<forall>j < nat (r' - r).
        exit_status h (length (commands h) + j) ''sudo -A /usr/sbin/purge'' \<noteq> 0) \<and>
     (r' < 5 \<longrightarrow>
        exit_status h (length (commands h) + nat (r' - r)) ''sudo -A /usr/sbin/purge'' = 0)"
proof (induction r h arbitrary: r' h' rule: purge_loop.induct)
  case (1 r h)
  let ?P = "''sudo -A /usr/sbin/purge''"
  let ?st = "exit_status h (length (commands h)) ?P"
  let ?h1 = "h\<lparr>commands := commands h @ [?P]\<rparr>"
  show ?case
  proof (cases "r < 5")
    case False
    with "1.prems" show ?thesis by (simp add: purge_loop.simps [of r h])
  next
    case True
    show ?thesis
    proof (cases "?st = 0")
      case z: True
      with True "1.prems" have "r' = r" "h' = ?h1"
        by (simp_all add: purge_loop.simps [of r h] os_system_def)
      with True z show ?thesis by simp
    next
      case nz: False
      let ?h2 = "print ''Retry purge'' ?h1"
      have rec: "purge_loop (r + 1) ?h2 = (r', h')"
        using True nz "1.prems" by (simp add: purge_loop.simps [of r h] os_system_def)
      have os: "(?st, ?h1) = os_system ?P h" by (simp add: os_system_def)
      from "1.IH" [OF True os refl nz rec] True
      have ih: "r + 1 \<le> r'" "r' \<le> 5" "files h' = files ?h2" "exit_status h' = exit_status ?h2"
        "commands h' = commands ?h2 @ replicate (nat (r' - (r + 1)) + (if r' < 5 then 1 else 0)) ?P"
        "\<forall>j < nat (r' - (r + 1)). exit_status ?h2 (length (commands ?h2) + j) ?P \<noteq> 0"
        "r' < 5 \<longrightarrow> exit_status ?h2 (length (commands ?h2) + nat (r' - (r + 1))) ?P = 0"
        by simp_all
      have n: "nat (r' - r) = Suc (nat (r' - (r + 1)))" using ih(1) by simp
      have a: "commands h' = commands h @ replicate (nat (r' - r) + (if r' < 5 then 1 else 0)) ?P"
        using ih(5) by (simp add: n print_def)
      have b: "exit_status h (length (commands h) + j) ?P \<noteq> 0" if "j < nat (r' - r)" for j
      proof (cases j)
        case 0
        with nz show ?thesis by simp
      next
        case (Suc i)
        with that n have "i < nat (r' - (r + 1))" by simp
        with ih(6) Suc show ?thesis by (simp add: print_def)
      qed
      have c: "r' < 5 \<longrightarrow> exit_status h (length (commands h) + nat (r' - r)) ?P = 0"
        using ih(7) by (simp add: n print_def)
      from ih(1,2,3,4) a b c show ?thesis by (simp add: print_def)
    qed
  qed
qed

text \<open>
  Claim C7. On the macOS branch, when the helper script can be written,
  \<^verbatim>\<open>clear_virtual_cache\<close> returns normally; the purge command is run \<open>k\<close> times with
  \<open>1 \<le> k \<le> 5\<close>, every attempt but the last having ended with a non-zero exit status and,
  if fewer than 5 attempts were made, the last one with status 0; and afterwards the helper
  script does not exist, whether an attempt succeeded or all five failed. The other files are
  as they were.
\<close>

theorem clear_virtual_cache_darwin:
  "platform h = ''darwin'' \<Longrightarrow> ''./mac_prompt_pw.sh'' \<notin> unwritable h \<Longrightarrow>
     \<exists>k. fst (clear_virtual_cache h) = Returned \<and>
         files (snd (clear_virtual_cache h)) = (files h)(''./mac_prompt_pw.sh'' := None) \<and>
         commands (snd (clear_virtual_cache h)) =
           commands h @ ''chmod +x ./mac_prompt_pw.sh'' # replicate k ''sudo -A /usr/sbin/purge'' \<and>
         1 \<le> k \<and> k \<le> 5 \<and>
         (\<forall>j < k - 1. purge_status h j \<noteq> 0) \<and>
         (k < 5 \<longrightarrow> purge_status h (k - 1) = 0)"
proof -
  assume d: "platform h = ''darwin''" and w: "''./mac_prompt_pw.sh'' \<notin> unwritable h"
  let ?S = "''./mac_prompt_pw.sh''"
  let ?P = "''sudo -A /usr/sbin/purge''"
  let ?h1 = "h\<lparr>files := (files h)(?S \<mapsto> concat mac_prompt_script)\<rparr>"
  let ?h2 = "?h1\<lparr>environ := (environ ?h1)(''SUDO_ASKPASS'' \<mapsto> ?S)\<rparr>"
  let ?h3 = "?h2\<lparr>commands := commands ?h2 @ [''chmod +x ./mac_prompt_pw.sh'']\<rparr>"
  obtain r' h4 where pl: "purge_loop 0 ?h3 = (r', h4)" by (cases "purge_loop 0 ?h3")
  from purge_loop_spec [OF pl]
  have sp: "0 \<le> r'" "r' \<le> 5" "files h4 = files ?h3" 
    "commands h4 = commands ?h3 @ replicate (nat r' + (if r' < 5 then 1 else 0)) ?P"
    "\<forall>j < nat r'. exit_status h (length (commands ?h3) + j) ?P \<noteq> 0"
    "r' < 5 \<longrightarrow> exit_status h (length (commands ?h3) + nat r') ?P = 0"
    by simp_all
  let ?h5 = "if r' = 5
             then print_error ''Could not purge virtual memory after 5 tries, skipping'' h4 else h4"
  let ?h6 = "?h5\<lparr>files := (files ?h5)(?S := None)\<rparr>"
  let ?k = "nat r' + (if r' < 5 then 1 else 0)"
  have f5: "files ?h5 = (files h)(?S \<mapsto> concat mac_prompt_script)"
    using sp(3) by (simp add: print_error_def)
  have c5: "commands ?h5 = commands h @ ''chmod +x ./mac_prompt_pw.sh'' # replicate ?k ?P"
    using sp(4) by (simp add: print_error_def)
  have rm: "os_remove ?S ?h5 = Inr ?h6"
    unfolding os_remove_def f5 by simp
  have res: "clear_virtual_cache h = (Returned, print ''Cleared virtual memory'' ?h6)"
    unfolding clear_virtual_cache_def
    using d w rm pl by (simp add: open_w_write_def os_system_def Let_def)
  have f: "files (snd (clear_virtual_cache h)) = (files h)(?S := None)"
    unfolding res using f5 by (simp add: print_def)
  have c: "commands (snd (clear_virtual_cache h)) =
             commands h @ ''chmod +x ./mac_prompt_pw.sh'' # replicate ?k ?P"
    unfolding res using c5 by (simp add: print_def)
  have k: "1 \<le> ?k" "?k \<le> 5" using sp(1,2) by auto
  have nz: "\<forall>j < ?k - 1. purge_status h j \<noteq> 0"
    using sp(5) by (auto simp add: purge_status_def)
  have z: "?k < 5 \<longrightarrow> purge_status h (?k - 1) = 0"
    using sp(1,2,6) by (auto simp add: purge_status_def)
  show ?thesis
    by (rule exI [of _ ?k]) (use res f c k nz z in simp)
qed

theorem clear_virtual_cache_darwin_witness:
  "platform (bare_host ''darwin'' 1) = ''darwin'' \<and>
   ''./mac_prompt_pw.sh'' \<notin> unwritable (bare_host ''darwin'' 1) \<and>
   fst (clear_virtual_cache (bare_host ''darwin'' 1)) = Returned \<and>
   files (snd (clear_virtual_cache (bare_host ''darwin'' 1))) ''./mac_prompt_pw.sh'' = None \<and>
   commands (snd (clear_virtual_cache (bare_host ''darwin'' 1))) =
     ''chmod +x ./mac_prompt_pw.sh'' # replicate 5 ''sudo -A /usr/sbin/purge'' \<and>
   fst (clear_virtual_cache (bare_host ''darwin'' 0)) = Returned \<and>
   files (snd (clear_virtual_cache (bare_host ''darwin'' 0))) ''./mac_prompt_pw.sh'' = None \<and>
   commands (snd (clear_virtual_cache (bare_host ''darwin'' 0))) =
     [''chmod +x ./mac_prompt_pw.sh'', ''sudo -A /usr/sbin/purge'']"
proof -
  have p1: "platform (bare_host ''darwin'' 1) = ''darwin''"
    and u1: "''./mac_prompt_pw.sh'' \<notin> unwritable (bare_host ''darwin'' 1)"
    and p0: "platform (bare_host ''darwin'' 0) = ''darwin''"
    and u0: "''./mac_prompt_pw.sh'' \<notin> unwritable (bare_host ''darwin'' 0)"
    by (simp_all add: bare_host_def)
  have s1: "purge_status (bare_host ''darwin'' 1) j = 1" 
    and s0: "purge_status (bare_host ''darwin'' 0) j = 0" for j
    by (simp_all add: purge_status_def bare_host_def)
  have c: "commands (bare_host ''darwin'' 1) = []" "commands (bare_host ''darwin'' 0) = []"
    by (simp_all add: bare_host_def)
  from clear_virtual_cache_darwin [OF p1 u1]
  obtain k where k: "fst (clear_virtual_cache (bare_host ''darwin'' 1)) = Returned"
    "files (snd (clear_virtual_cache (bare_host ''darwin'' 1))) ''./mac_prompt_pw.sh'' = None"
    "commands (snd (clear_virtual_cache (bare_host ''darwin'' 1))) =
       ''chmod +x ./mac_prompt_pw.sh'' # replicate k ''sudo -A /usr/sbin/purge''"
    "k \<le> 5" "k < 5 \<longrightarrow> purge_status (bare_host ''darwin'' 1) (k - 1) = 0"
    by (auto simp add: c)
  from k(4,5) have k5: "k = 5" by (simp add: s1)
  from clear_virtual_cache_darwin [OF p0 u0]
  obtain m where m: "fst (clear_virtual_cache (bare_host ''darwin'' 0)) = Returned"
    "files (snd (clear_virtual_cache (bare_host ''darwin'' 0))) ''./mac_prompt_pw.sh'' = None"
    "commands (snd (clear_virtual_cache (bare_host ''darwin'' 0))) =
       ''chmod +x ./mac_prompt_pw.sh'' # replicate m ''sudo -A /usr/sbin/purge''"
    "1 \<le> m" "\<forall>j < m - 1. purge_status (bare_host ''darwin'' 0) j \<noteq> 0"
    by (auto simp add: c)
  have m1: "m = 1"
  proof (rule ccontr)
    assume "m \<noteq> 1"
    with m(4) have "0 < m - 1" by simp
    with m(5) have "purge_status (bare_host ''darwin'' 0) 0 \<noteq> 0" by blast
    then show False by (simp add: s0)
  qed
  show ?thesis
    using p1 u1 k(1,2,3) m(1,2,3) unfolding k5 m1 by simp
qed

end
